theory Spec2Isabelle
  imports Main
begin

section \<open>Values\<close>

text \<open>
  The handlers of \<^verbatim>\<open>src/index.js\<close> work on JavaScript values: request bodies parsed from
  JSON, documents read from and written to the collection, and the object literals sent
  as responses. \<open>JUndefined\<close> is JavaScript's \<^verbatim>\<open>undefined\<close> (what reading a missing
  property gives), \<open>JOid\<close> is a driver \<^verbatim>\<open>ObjectId\<close>, written as its 24 lower-case hex
  digits. Numbers are integers here: the handlers only ever test a number for being zero.
  An object is the list of its properties in insertion order.
\<close>

datatype json =
    JUndefined
  | JNull
  | JBool bool
  | JNum int
  | JStr string
  | JOid string
  | JArr "json list"
  | JObj "(string \<times> json) list"

type_synonym doc = "(string \<times> json) list"

text \<open>JavaScript truthiness, as tested by \<^verbatim>\<open>if (x)\<close> and \<^verbatim>\<open>!x\<close>.\<close>

fun truthy :: "json \<Rightarrow> bool" where
  "truthy JUndefined = False"
| "truthy JNull = False"
| "truthy (JBool b) = b"
| "truthy (JNum n) = (n \<noteq> 0)"
| "truthy (JStr s) = (s \<noteq> [])"
| "truthy (JOid h) = True"
| "truthy (JArr xs) = True"
| "truthy (JObj kvs) = True"

text \<open>
  Property read \<^verbatim>\<open>o?.k\<close> for the property names the handlers use: the value stored under
  \<open>k\<close> in an object, \<^verbatim>\<open>undefined\<close> for a missing property and for every non-object.
\<close>

fun jprop :: "json \<Rightarrow> string \<Rightarrow> json" where
  "jprop (JObj kvs) k = (case map_of kvs k of Some v \<Rightarrow> v | None \<Rightarrow> JUndefined)"
| "jprop v k = JUndefined"

text \<open>
  Property write \<^verbatim>\<open>o.k = v\<close>: an existing property keeps its position, a new one goes last.
  An object literal \<^verbatim>\<open>{ k1: v1, k2: v2, ... }\<close> performs its writes from left to right, so
  a key written twice keeps the last value.
\<close>

fun obj_set :: "doc \<Rightarrow> string \<Rightarrow> json \<Rightarrow> doc" where
  "obj_set [] k v = [(k, v)]"
| "obj_set ((k', v') # kvs) k v =
     (if k' = k then (k, v) # kvs else (k', v') # obj_set kvs k v)"

fun obj_fields :: "doc \<Rightarrow> (string \<times> json) list \<Rightarrow> doc" where
  "obj_fields d [] = d"
| "obj_fields d ((k, v) # kvs) = obj_fields (obj_set d k v) kvs"

definition obj_lit :: "(string \<times> json) list \<Rightarrow> json" where
  "obj_lit kvs = JObj (obj_fields [] kvs)"

fun is_bool :: "json \<Rightarrow> bool" where
  "is_bool (JBool b) = True"
| "is_bool v = False"

text \<open>
  What the driver's serialiser stores for a value: \<^verbatim>\<open>undefined\<close> is written as \<^verbatim>\<open>null\<close>
  (the client of line 144 leaves \<^verbatim>\<open>ignoreUndefined\<close> at its default), everything else as
  it is.
\<close>

primrec bson :: "json \<Rightarrow> json" where
  "bson JUndefined = JNull"
| "bson JNull = JNull"
| "bson (JBool b) = JBool b"
| "bson (JNum n) = JNum n"
| "bson (JStr s) = JStr s"
| "bson (JOid h) = JOid h"
| "bson (JArr xs) = JArr (map bson xs)"
| "bson (JObj kvs) = JObj (map (map_prod id bson) kvs)"

text \<open>A value as \<^verbatim>\<open>JSON.parse\<close> produces it: no \<^verbatim>\<open>undefined\<close> and no \<^verbatim>\<open>ObjectId\<close> inside.\<close>

primrec is_json :: "json \<Rightarrow> bool" where
  "is_json JUndefined = False"
| "is_json JNull = True"
| "is_json (JBool b) = True"
| "is_json (JNum n) = True"
| "is_json (JStr s) = True"
| "is_json (JOid h) = False"
| "is_json (JArr xs) = list_all id (map is_json xs)"
| "is_json (JObj kvs) = list_all snd (map (map_prod id is_json) kvs)"


section \<open>Collaborators\<close>

text \<open>
  The handlers call four libraries that are not part of the repository: the token library
  (\<^verbatim>\<open>jwt.sign\<close>, \<^verbatim>\<open>jwt.verify\<close>), the driver's \<^verbatim>\<open>ObjectId\<close> constructor, the document
  collection and the asset store (\<^verbatim>\<open>cloudinary.uploader.destroy\<close>). Each call can throw;
  a thrown exception is the \<open>Inl\<close> of the result.
\<close>

datatype error = TypeError | BSONError | MongoError | DuplicateKey | CloudError | JwtError

text \<open>
  The token library is a parameter of the handlers that use it. \<open>jwt_sign\<close> is
  \<^verbatim>\<open>jwt.sign(payload, JWT_ACCESS_SECRET, { expiresIn: "1h" })\<close> as a function of the
  payload, \<open>jwt_verify\<close> is \<^verbatim>\<open>jwt.verify(token, JWT_ACCESS_SECRET, callback)\<close> as a function
  of the token: \<open>Inl\<close> is the callback's \<^verbatim>\<open>err\<close>, \<open>Inr\<close> its \<^verbatim>\<open>decoded\<close>.
\<close>

record jwt_lib =
  jwt_sign :: "json \<Rightarrow> error + string"
  jwt_verify :: "json \<Rightarrow> error + json"

text \<open>
  \<^verbatim>\<open>new ObjectId(id)\<close> for a string: 24 hex digits give the identifier (case does not
  matter), any other string throws.
\<close>

definition is_hex :: "char \<Rightarrow> bool" where
  "is_hex c = (c \<in> set ''0123456789abcdefABCDEF'')"

definition hex_lower :: "char \<Rightarrow> char" where
  "hex_lower c =
     (if c = CHR ''A'' then CHR ''a'' else if c = CHR ''B'' then CHR ''b''
      else if c = CHR ''C'' then CHR ''c'' else if c = CHR ''D'' then CHR ''d''
      else if c = CHR ''E'' then CHR ''e'' else if c = CHR ''F'' then CHR ''f'' else c)"

definition ObjectId_new :: "string \<Rightarrow> error + string" where
  "ObjectId_new s =
     (if length s = 24 \<and> list_all is_hex s then Inr (map hex_lower s) else Inl BSONError)"

text \<open>The identifier the driver generates for a document inserted without one.\<close>

definition hex_digit :: "nat \<Rightarrow> char" where
  "hex_digit d = ''0123456789abcdef'' ! (d mod 16)"

fun hex_digits :: "nat \<Rightarrow> nat \<Rightarrow> string" where
  "hex_digits 0 n = []"
| "hex_digits (Suc k) n = hex_digits k (n div 16) @ [hex_digit n]"

text \<open>
  The world outside the process: the documents of the collection in insertion order, the
  counter behind generated identifiers, whether the database and the asset store answer,
  and the calls made to both so far, oldest first.
\<close>

datatype event =
    CollFind doc
  | CollFindOne doc
  | CollInsertOne json
  | CollDeleteOne doc
  | CollUpdateOne doc doc
  | CloudDestroy json

record world =
  docs :: "doc list"
  oid_counter :: nat
  db_down :: bool
  cloud_down :: bool
  trace :: "event list"

definition log_call :: "event \<Rightarrow> world \<Rightarrow> world" where
  "log_call e w = w\<lparr>trace := trace w @ [e]\<rparr>"

text \<open>
  A filter is a list of equality conditions. A stored value meets a condition when it
  equals the queried value or is an array holding it.
\<close>

definition eq_match :: "json \<Rightarrow> json \<Rightarrow> bool" where
  "eq_match stored q = (stored = q \<or> (case stored of JArr xs \<Rightarrow> q \<in> set xs | _ \<Rightarrow> False))"

definition matches :: "doc \<Rightarrow> doc \<Rightarrow> bool" where
  "matches flt d = list_all (\<lambda>kq. eq_match (jprop (JObj d) (fst kq)) (snd kq)) flt"

fun delete_first :: "('a \<Rightarrow> bool) \<Rightarrow> 'a list \<Rightarrow> 'a list" where
  "delete_first P [] = []"
| "delete_first P (x # xs) = (if P x then xs else x # delete_first P xs)"

fun update_first :: "('a \<Rightarrow> bool) \<Rightarrow> ('a \<Rightarrow> 'a) \<Rightarrow> 'a list \<Rightarrow> 'a list" where
  "update_first P f [] = []"
| "update_first P f (x # xs) = (if P x then f x # xs else x # update_first P f xs)"

definition collection_find :: "doc \<Rightarrow> world \<Rightarrow> (error + doc list) \<times> world" where
  "collection_find flt w =
     (if db_down w then (Inl MongoError, log_call (CollFind flt) w)
      else (Inr (filter (matches flt) (docs w)), log_call (CollFind flt) w))"

definition collection_findOne :: "doc \<Rightarrow> world \<Rightarrow> (error + doc option) \<times> world" where
  "collection_findOne flt w =
     (if db_down w then (Inl MongoError, log_call (CollFindOne flt) w)
      else (Inr (find (matches flt) (docs w)), log_call (CollFindOne flt) w))"

text \<open>
  \<^verbatim>\<open>insertOne\<close> stores a document under its own \<^verbatim>\<open>_id\<close>, or under a generated identifier
  when it has none, and refuses an \<^verbatim>\<open>_id\<close> that is already taken. The server keeps \<^verbatim>\<open>_id\<close>
  as the first field of the stored document, whatever its place in the payload. Its
  result is the \<^verbatim>\<open>insertedId\<close>. For a payload that is not an object the driver throws a
  \<^verbatim>\<open>TypeError\<close> before it reaches the database.
\<close>

definition collection_insertOne :: "json \<Rightarrow> world \<Rightarrow> (error + json) \<times> world" where
  "collection_insertOne payload w =
     (let w1 = log_call (CollInsertOne payload) w in
      case payload of
        JObj kvs \<Rightarrow>
          if db_down w then (Inl MongoError, w1)
          else
            (let given = jprop payload ''_id'';
                 generate = (given = JUndefined \<or> given = JNull);
                 idv = (if generate then JOid (hex_digits 24 (oid_counter w)) else given);
                 d = (''_id'', bson idv) #
                       filter (\<lambda>kv. fst kv \<noteq> ''_id'') (map (map_prod id bson) kvs)
             in if list_ex (matches [(''_id'', bson idv)]) (docs w)
                then (Inl DuplicateKey, w1)
                else (Inr idv,
                      w1\<lparr>docs := docs w @ [d],
                         oid_counter := (if generate then Suc (oid_counter w) else oid_counter w)\<rparr>))
      | _ \<Rightarrow> (Inl TypeError, w1))"

text \<open>\<^verbatim>\<open>deleteOne\<close> removes the first matching document; its result is the \<^verbatim>\<open>deletedCount\<close>.\<close>

definition collection_deleteOne :: "doc \<Rightarrow> world \<Rightarrow> (error + nat) \<times> world" where
  "collection_deleteOne flt w =
     (let w1 = log_call (CollDeleteOne flt) w in
      if db_down w then (Inl MongoError, w1)
      else (Inr (if list_ex (matches flt) (docs w) then 1 else 0),
            w1\<lparr>docs := delete_first (matches flt) (docs w)\<rparr>))"

text \<open>
  \<^verbatim>\<open>updateOne(filter, { $set: upd })\<close> writes every listed field into the first matching
  document, each value as the serialiser stores it, and leaves every other field alone.
  A document the writes do not change is matched but not modified.
\<close>

record update_result =
  matchedCount :: nat
  modifiedCount :: nat

definition apply_set :: "doc \<Rightarrow> doc \<Rightarrow> doc" where
  "apply_set d upd = obj_fields d (map (map_prod id bson) upd)"

definition update_report :: "doc \<Rightarrow> doc \<Rightarrow> doc list \<Rightarrow> update_result" where
  "update_report flt upd ds =
     (case find (matches flt) ds of
        None \<Rightarrow> \<lparr>matchedCount = 0, modifiedCount = 0\<rparr>
      | Some d \<Rightarrow> \<lparr>matchedCount = 1, modifiedCount = (if apply_set d upd = d then 0 else 1)\<rparr>)"

definition collection_updateOne :: "doc \<Rightarrow> doc \<Rightarrow> world \<Rightarrow> (error + update_result) \<times> world" where
  "collection_updateOne flt upd w =
     (let w1 = log_call (CollUpdateOne flt upd) w in
      if db_down w then (Inl MongoError, w1)
      else (Inr (update_report flt upd (docs w)),
            w1\<lparr>docs := update_first (matches flt) (\<lambda>d. apply_set d upd) (docs w)\<rparr>))"

definition cloudinary_destroy :: "json \<Rightarrow> world \<Rightarrow> (error + unit) \<times> world" where
  "cloudinary_destroy public_id w =
     (if cloud_down w then (Inl CloudError, log_call (CloudDestroy public_id) w)
      else (Inr (), log_call (CloudDestroy public_id) w))"


section \<open>Responses\<close>

text \<open>
  What a handler does with a request: it sends a JSON body with a status (and possibly a
  cookie instruction), sends a text, passes an exception to \<^verbatim>\<open>next\<close>, swallows an exception
  after logging it (no response is sent), or throws outside every \<^verbatim>\<open>try\<close>.
\<close>

record cookie_opts =
  maxAge :: "nat option"
  httpOnly :: bool
  secure :: bool
  sameSite :: string

datatype cookie_op =
    SetCookie string string cookie_opts
  | ClearCookie string cookie_opts

datatype outcome =
    Respond nat "cookie_op option" json
  | SendText string
  | Forwarded error
  | NoResponse error
  | Rejected error

section \<open>Token routes\<close>

text \<open>\<^verbatim>\<open>app.post("/jwt", ...)\<close>, lines 69 to 97.\<close>

definition post_jwt :: "jwt_lib \<Rightarrow> json \<Rightarrow> outcome" where
  "post_jwt lib user =
     (if \<not> truthy user
      then Respond 401 None
             (obj_lit [(''success'', JBool False), (''message'', JStr ''Verified email not found!'')])
      else case jwt_sign lib user of
             Inl err \<Rightarrow> NoResponse err
           | Inr token \<Rightarrow>
               if token = []
               then Respond 401 None
                      (obj_lit [(''success'', JBool False),
                                (''message'', JStr ''jwt token generate failed'')])
               else Respond 200
                      (Some (SetCookie ''token'' token
                         \<lparr>maxAge = None, httpOnly = True, secure = True, sameSite = ''none''\<rparr>))
                      (obj_lit [(''success'', JBool True)]))"

text \<open>\<^verbatim>\<open>app.post("/jwt-logout", ...)\<close>, lines 100 to 109.\<close>

definition post_jwt_logout :: outcome where
  "post_jwt_logout =
     Respond 200
       (Some (ClearCookie ''token''
          \<lparr>maxAge = Some 0, httpOnly = True, secure = True, sameSite = ''none''\<rparr>))
       (obj_lit [(''success'', JBool True)])"

text \<open>
  \<^verbatim>\<open>verifyToken\<close>, lines 112 to 136: \<open>Inl\<close> is the response it sends itself, \<open>Inr\<close> the
  decoded identity it stores in \<^verbatim>\<open>req.user\<close> before calling \<^verbatim>\<open>next()\<close>.
\<close>

definition verifyToken :: "jwt_lib \<Rightarrow> json \<Rightarrow> outcome + json" where
  "verifyToken lib cookies =
     (let token = jprop cookies ''token'' in
      if \<not> truthy token
      then Inl (Respond 403 None
                  (obj_lit [(''success'', JBool False),
                            (''message'', JStr ''Unauthorized access. Please login to continue'')]))
      else case jwt_verify lib token of
             Inl err \<Rightarrow>
               Inl (Respond 403 None
                      (obj_lit [(''success'', JBool False), (''message'', JStr ''Access forbidden'')]))
           | Inr decoded \<Rightarrow> Inr decoded)"

section \<open>Tourist spot routes\<close>

text \<open>\<^verbatim>\<open>app.get("/", ...)\<close>, lines 161 to 163.\<close>

definition get_root :: outcome where
  "get_root = SendText ''Tourists server is running ...''"

text \<open>\<^verbatim>\<open>app.get("/tourist-spot", ...)\<close>, lines 166 to 176.\<close>

definition get_spots :: "world \<Rightarrow> outcome \<times> world" where
  "get_spots w =
     (case collection_find [] w of
        (Inl err, w1) \<Rightarrow> (Forwarded err, w1)
      | (Inr data, w1) \<Rightarrow>
          if data = []
          then (Respond 404 None
                  (obj_lit [(''success'', JBool False), (''message'', JStr ''No data found'')]), w1)
          else (Respond 200 None
                  (obj_lit [(''success'', JBool True), (''data'', JArr (map JObj data))]), w1))"

text \<open>
  \<^verbatim>\<open>app.get("/tourist-spot/user/:email", verifyToken, ...)\<close>, lines 179 to 220. The path
  parameter is a string; \<^verbatim>\<open>!email\<close> is true of the empty one.
\<close>

definition get_user_spots :: "jwt_lib \<Rightarrow> json \<Rightarrow> string \<Rightarrow> world \<Rightarrow> outcome \<times> world" where
  "get_user_spots lib cookies email w =
     (case verifyToken lib cookies of
        Inl resp \<Rightarrow> (resp, w)
      | Inr user \<Rightarrow>
          (let verifiedUser = jprop user ''user'' in
           if \<not> truthy (JStr email)
           then (Respond 400 None
                   (obj_lit [(''success'', JBool False),
                             (''message'', JStr ''Email parameter is required.'')]), w)
           else if JStr email \<noteq> verifiedUser
           then (Respond 403 None
                   (obj_lit [(''success'', JBool False), (''message'', JStr ''Access forbidden'')]), w)
           else case collection_find [(''userEmail'', JStr email)] w of
                  (Inl err, w1) \<Rightarrow> (Forwarded err, w1)
                | (Inr data, w1) \<Rightarrow>
                    if data = []
                    then (Respond 404 None
                            (obj_lit [(''success'', JBool False),
                                      (''message'', JStr ''No data found for the provided email.'')]),
                          w1)
                    else (Respond 200 None
                            (obj_lit [(''success'', JBool True), (''data'', JArr (map JObj data))]),
                          w1)))"

text \<open>\<^verbatim>\<open>app.get("/tourist-spot/:id", ...)\<close>, lines 223 to 237.\<close>

definition get_spot :: "string \<Rightarrow> world \<Rightarrow> outcome \<times> world" where
  "get_spot id_param w =
     (case ObjectId_new id_param of
        Inl err \<Rightarrow> (Forwarded err, w)
      | Inr oid \<Rightarrow>
          (case collection_findOne [(''_id'', JOid oid)] w of
             (Inl err, w1) \<Rightarrow> (Forwarded err, w1)
           | (Inr None, w1) \<Rightarrow>
               (Respond 404 None
                  (obj_lit [(''success'', JBool False), (''message'', JStr ''No data found'')]), w1)
           | (Inr (Some data), w1) \<Rightarrow>
               (Respond 200 None
                  (obj_lit [(''success'', JBool True), (''data'', JObj data)]), w1)))"

text \<open>\<^verbatim>\<open>app.post("/tourist-spot", ...)\<close>, lines 240 to 259.\<close>

definition post_spot :: "json \<Rightarrow> world \<Rightarrow> outcome \<times> world" where
  "post_spot touristData w =
     (case collection_insertOne touristData w of
        (Inl err, w1) \<Rightarrow> (Forwarded err, w1)
      | (Inr insertedId, w1) \<Rightarrow>
          if \<not> truthy insertedId
          then (Respond 500 None
                  (obj_lit [(''success'', JBool False),
                            (''message'', JStr ''Failed to add new tourist spot'')]), w1)
          else (Respond 201 None
                  (obj_lit [(''success'', JBool True),
                            (''message'', JStr ''Tourist spot added successfully''),
                            (''id'', insertedId)]), w1))"

text \<open>\<^verbatim>\<open>app.delete("/tourist-spot/:id", ...)\<close>, lines 262 to 287.\<close>

definition delete_spot :: "string \<Rightarrow> world \<Rightarrow> outcome \<times> world" where
  "delete_spot id_param w =
     (case ObjectId_new id_param of
        Inl err \<Rightarrow> (Forwarded err, w)
      | Inr oid \<Rightarrow>
          (let flt = [(''_id'', JOid oid)] in
           case collection_findOne flt w of
             (Inl err, w1) \<Rightarrow> (Forwarded err, w1)
           | (Inr tourist_spot, w1) \<Rightarrow>
               (let public_id =
                      jprop (jprop (case tourist_spot of None \<Rightarrow> JNull | Some d \<Rightarrow> JObj d)
                               ''imgHostingInfo'') ''public_id''
                in case (if truthy public_id then cloudinary_destroy public_id w1
                         else (Inr (), w1)) of
                     (Inl err, w2) \<Rightarrow> (Forwarded err, w2)
                   | (Inr u, w2) \<Rightarrow>
                       (case collection_deleteOne flt w2 of
                          (Inl err, w3) \<Rightarrow> (Forwarded err, w3)
                        | (Inr deletedCount, w3) \<Rightarrow>
                            if deletedCount = 0
                            then (Respond 404 None
                                    (obj_lit [(''success'', JBool False),
                                              (''success'', JStr ''No data found to delete'')]), w3)
                            else (Respond 200 None
                                    (obj_lit [(''success'', JBool True),
                                              (''message'',
                                               JStr ''Tourist spot deleted successfully'')]),
                                  w3)))))"

text \<open>
  \<^verbatim>\<open>app.patch("/tourist-spot/:id", ...)\<close>, lines 289 to 348. \<open>updateFields\<close> is the object of
  lines 309 to 323, built from the destructured body.
\<close>

definition updateFields :: "json \<Rightarrow> doc" where
  "updateFields updateInfo =
     (let base = obj_fields []
            [(''spot_name'', jprop updateInfo ''spot_name''),
             (''country_name'', jprop updateInfo ''country_name''),
             (''location'', jprop updateInfo ''location''),
             (''details'', jprop updateInfo ''details''),
             (''average_cost'', jprop updateInfo ''average_cost''),
             (''seasonality'', jprop updateInfo ''seasonality''),
             (''travel_time'', jprop updateInfo ''travel_time''),
             (''total_visitors_per_year'', jprop updateInfo ''total_visitors_per_year'')];
          imgHostingInfo = jprop updateInfo ''imgHostingInfo''
      in if truthy imgHostingInfo then obj_set base ''imgHostingInfo'' imgHostingInfo else base)"

text \<open>
  The destructuring of lines 292 to 303 stands before the \<^verbatim>\<open>try\<close>: a body that is
  \<^verbatim>\<open>undefined\<close> or \<^verbatim>\<open>null\<close> makes it throw, and nothing catches that.
\<close>

definition patch_spot :: "string \<Rightarrow> json \<Rightarrow> world \<Rightarrow> outcome \<times> world" where
  "patch_spot id_param updateInfo w =
     (if updateInfo = JUndefined \<or> updateInfo = JNull then (Rejected TypeError, w)
      else case ObjectId_new id_param of
        Inl err \<Rightarrow> (Forwarded err, w)
      | Inr oid \<Rightarrow>
          (let flt = [(''_id'', JOid oid)];
               upd = updateFields updateInfo;
               ex_public_id = jprop updateInfo ''ex_public_id''
           in case (if truthy ex_public_id then cloudinary_destroy ex_public_id w
                    else (Inr (), w)) of
                (Inl err, w1) \<Rightarrow> (Forwarded err, w1)
              | (Inr u, w1) \<Rightarrow>
                  (case collection_updateOne flt upd w1 of
                     (Inl err, w2) \<Rightarrow> (Forwarded err, w2)
                   | (Inr dataUpdateRes, w2) \<Rightarrow>
                       if modifiedCount dataUpdateRes = 0
                       then (Respond 500 None
                               (obj_lit [(''success'', JBool False),
                                         (''message'',
                                          JStr ''Failed to update this document data'')]), w2)
                       else (Respond 200 None
                               (obj_lit [(''success'', JBool True),
                                         (''message'', JStr ''Tourist spot updated successfully'')]),
                             w2))))"

section \<open>The routes\<close>

datatype request =
    PostJwt json
  | PostJwtLogout
  | GetRoot
  | GetSpots
  | GetUserSpots json string
  | GetSpot string
  | PostSpot json
  | DeleteSpot string
  | PatchSpot string json

fun handle :: "jwt_lib \<Rightarrow> request \<Rightarrow> world \<Rightarrow> outcome \<times> world" where
  "handle lib (PostJwt body) w = (post_jwt lib body, w)"
| "handle lib PostJwtLogout w = (post_jwt_logout, w)"
| "handle lib GetRoot w = (get_root, w)"
| "handle lib GetSpots w = get_spots w"
| "handle lib (GetUserSpots cookies email) w = get_user_spots lib cookies email w"
| "handle lib (GetSpot id_param) w = get_spot id_param w"
| "handle lib (PostSpot body) w = post_spot body w"
| "handle lib (DeleteSpot id_param) w = delete_spot id_param w"
| "handle lib (PatchSpot id_param body) w = patch_spot id_param body w"


section \<open>Observations\<close>

text \<open>The eight descriptive fields that line 309 always puts into the \<^verbatim>\<open>$set\<close>.\<close>

definition editable_fields :: "string list" where
  "editable_fields =
     [''spot_name'', ''country_name'', ''location'', ''details'', ''average_cost'',
      ''seasonality'', ''travel_time'', ''total_visitors_per_year'']"

text \<open>Who owns what: identifier and \<^verbatim>\<open>userEmail\<close> of every stored document, in order.\<close>

definition ownership :: "world \<Rightarrow> (json option \<times> json option) list" where
  "ownership w = map (\<lambda>d. (map_of d ''_id'', map_of d ''userEmail'')) (docs w)"

section \<open>Example worlds\<close>

text \<open>A reachable database with no documents, and a token library for the examples.\<close>

definition empty_world :: world where
  "empty_world =
     \<lparr>docs = [], oid_counter = 0, db_down = False, cloud_down = False, trace = []\<rparr>"

text \<open>
  Signing refuses a payload that already carries \<^verbatim>\<open>exp\<close>, as the token library does when
  it is also given \<^verbatim>\<open>expiresIn\<close>; verification accepts the one token it issues.
\<close>

definition sample_jwt :: jwt_lib where
  "sample_jwt =
     \<lparr>jwt_sign = (\<lambda>payload. if jprop payload ''exp'' \<noteq> JUndefined then Inl JwtError
                              else Inr ''signed.token''),
      jwt_verify = (\<lambda>token. if token = JStr ''signed.token''
                             then Inr (JObj [(''user'', JStr ''a@x.com'')]) else Inl JwtError)\<rparr>"

text \<open>A collection holding one document with an image, as \<^verbatim>\<open>POST /tourist-spot\<close> leaves it.\<close>

definition reef_world :: world where
  "reef_world =
     \<lparr>docs = [[(''_id'', JOid ''000000000000000000000000''),
               (''spot_name'', JStr ''Reef''), (''userEmail'', JStr ''a@x.com''),
               (''imgHostingInfo'',
                JObj [(''url'', JStr ''https://img.example/reef.jpg''),
                      (''public_id'', JStr ''img123'')])]],
      oid_counter = 1, db_down = False, cloud_down = False, trace = []\<rparr>"

text \<open>The same document after an update that named only \<^verbatim>\<open>spot_name\<close>.\<close>

definition patched_reef_world :: world where
  "patched_reef_world =
     \<lparr>docs = [[(''_id'', JOid ''000000000000000000000000''),
               (''spot_name'', JStr ''Reef''), (''userEmail'', JStr ''a@x.com''),
               (''imgHostingInfo'',
                JObj [(''url'', JStr ''https://img.example/reef.jpg''),
                      (''public_id'', JStr ''img123'')]),
               (''country_name'', JNull), (''location'', JNull), (''details'', JNull),
               (''average_cost'', JNull), (''seasonality'', JNull), (''travel_time'', JNull),
               (''total_visitors_per_year'', JNull)]],
      oid_counter = 1, db_down = False, cloud_down = False, trace = []\<rparr>"

section \<open>Identifiers\<close>

lemma ObjectId_new_example [simp]:
  "ObjectId_new ''507f1f77bcf86cd799439011'' = Inr ''507f1f77bcf86cd799439011''"
  by (simp add: ObjectId_new_def is_hex_def hex_lower_def)

lemma ObjectId_new_zero [simp]:
  "ObjectId_new ''000000000000000000000000'' = Inr ''000000000000000000000000''"
  by (simp add: ObjectId_new_def is_hex_def hex_lower_def)

lemma ObjectId_new_abc [simp]: "ObjectId_new ''abc'' = Inl BSONError"
  by (simp add: ObjectId_new_def)

lemma length_hex_digits: "length (hex_digits k n) = k"
  by (induction k arbitrary: n) simp_all

lemma hex_digit_lower: "hex_digit d \<in> set ''0123456789abcdef''"
  unfolding hex_digit_def by (rule nth_mem) simp

lemma set_hex_digits: "set (hex_digits k n) \<subseteq> set ''0123456789abcdef''"
proof (induction k arbitrary: n)
  case 0
  then show ?case by simp
next
  case (Suc k)
  have "hex_digit n \<in> set ''0123456789abcdef''" by (rule hex_digit_lower)
  with Suc.IH [of "n div 16"] show ?case by simp
qed

lemma lower_hex_char:
  assumes "c \<in> set ''0123456789abcdef''"
  shows "is_hex c" and "hex_lower c = c"
  using assms by (auto simp add: is_hex_def hex_lower_def)

lemma ObjectId_new_generated: "ObjectId_new (hex_digits 24 n) = Inr (hex_digits 24 n)"
proof -
  have "list_all is_hex (hex_digits 24 n)"
    using set_hex_digits [of 24 n] lower_hex_char(1) by (auto simp add: list_all_iff)
  moreover have "map hex_lower (hex_digits 24 n) = hex_digits 24 n"
    using set_hex_digits [of 24 n] lower_hex_char(2) by (auto intro: map_idI)
  ultimately show ?thesis by (simp add: ObjectId_new_def length_hex_digits)
qed

lemma hex_digits_of_zero: "hex_digits k 0 = replicate k (CHR ''0'')"
  by (induction k) (simp_all add: hex_digit_def replicate_append_same)

lemma hex_digits_zero: "hex_digits 24 0 = ''000000000000000000000000''"
  unfolding hex_digits_of_zero by code_simp

section \<open>Objects, stored values and updates\<close>

lemma map_of_obj_set:
  "map_of (obj_set d k v) k' = (if k' = k then Some v else map_of d k')"
  by (induction d) auto

lemma map_of_obj_fields:
  "map_of (obj_fields d kvs) k =
     (case map_of (rev kvs) k of Some v \<Rightarrow> Some v | None \<Rightarrow> map_of d k)"
proof (induction kvs arbitrary: d)
  case Nil
  then show ?case by simp
next
  case (Cons kv kvs)
  obtain k' v' where kv: "kv = (k', v')" by (cases kv)
  show ?case
    by (simp add: kv Cons.IH map_of_obj_set map_add_def split: option.splits)
qed

lemma map_of_obj_fields_other:
  assumes "k \<notin> fst ` set kvs"
  shows "map_of (obj_fields d kvs) k = map_of d k"
proof -
  from assms have "map_of (rev kvs) k = None"
    by (simp add: map_of_eq_None_iff)
  then show ?thesis by (simp add: map_of_obj_fields)
qed

lemma filter_other_keys: "map_of d k = None \<Longrightarrow> filter (\<lambda>kv. fst kv \<noteq> k) d = d"
  by (induction d) (auto split: if_splits)

lemma map_of_rev_distinct:
  assumes "distinct (map fst xs)"
  shows "map_of (rev xs) = map_of xs"
proof -
  have "distinct (map fst (rev xs))"
    using assms by (simp only: rev_map [symmetric] distinct_rev)
  then show ?thesis
    using assms map_of_inject_set [of "rev xs" xs] by simp
qed

lemma bson_is_json: "is_json v \<Longrightarrow> bson v = v"
proof (induction v)
  case (JArr xs)
  then show ?case by (auto simp add: list_all_iff intro: map_idI)
next
  case (JObj kvs)
  have "map_prod id bson kv = kv" if "kv \<in> set kvs" for kv
  proof -
    obtain k v where kv: "kv = (k, v)" by (cases kv)
    from JObj.prems that kv have "is_json v" by (auto simp add: list_all_iff)
    with JObj.IH that kv show ?thesis by auto
  qed
  then show ?case by (simp add: map_idI)
qed simp_all

lemma map_of_apply_set_other:
  assumes "k \<notin> fst ` set upd"
  shows "map_of (apply_set d upd) k = map_of d k"
  unfolding apply_set_def
  by (rule map_of_obj_fields_other) (use assms in \<open>auto simp: image_iff\<close>)

lemma updateFields_keys:
  "map fst (updateFields u) =
     editable_fields @ (if truthy (jprop u ''imgHostingInfo'') then [''imgHostingInfo''] else [])"
  by (simp add: updateFields_def editable_fields_def Let_def)

lemma updateFields_other_key:
  assumes "k \<notin> set editable_fields" and "k \<noteq> ''imgHostingInfo''"
  shows "k \<notin> fst ` set (updateFields u)"
proof -
  have "fst ` set (updateFields u) = set (map fst (updateFields u))" by simp
  also have "\<dots> \<subseteq> set editable_fields \<union> {''imgHostingInfo''}"
    unfolding updateFields_keys by auto
  finally show ?thesis using assms by auto
qed

lemma map_of_updateFields:
  assumes "k \<in> set editable_fields"
  shows "map_of (updateFields u) k = Some (jprop u k)"
  using assms by (auto simp add: updateFields_def editable_fields_def Let_def map_of_obj_set)

lemma map_of_apply_set_editable:
  assumes "k \<in> set editable_fields"
  shows "map_of (apply_set d (updateFields u)) k = Some (bson (jprop u k))"
proof -
  have dist: "distinct (map fst (map (map_prod id bson) (updateFields u)))"
    by (simp add: updateFields_keys editable_fields_def comp_def)
  have "map_of (map (map_prod id bson) (updateFields u)) k = Some (bson (jprop u k))"
    using map_of_updateFields [OF assms, of u]
    by (simp add: map_of_map map_prod_def)
  then have "map_of (rev (map (map_prod id bson) (updateFields u))) k = Some (bson (jprop u k))"
    using map_of_rev_distinct [OF dist] by simp
  then show ?thesis
    by (simp add: apply_set_def map_of_obj_fields)
qed

lemma update_report_zero:
  "(modifiedCount (update_report flt upd ds) = 0) =
     (find (matches flt) ds = None \<or> (\<exists>d. find (matches flt) ds = Some d \<and> apply_set d upd = d))"
  by (simp add: update_report_def split: option.splits)

lemma map_update_first:
  assumes "\<And>x. g (f x) = g x"
  shows "map g (update_first P f xs) = map g xs"
  by (induction xs) (simp_all add: assms)

lemma find_append_last:
  assumes "\<not> list_ex P xs" and "P x"
  shows "find P (xs @ [x]) = Some x"
  using assms by (induction xs) auto

lemma insert_fresh_payload:
  assumes "is_json (JObj kvs)" and "map_of kvs ''_id'' = None"
  shows "collection_insertOne (JObj kvs) w =
      (if db_down w then (Inl MongoError, log_call (CollInsertOne (JObj kvs)) w)
       else if list_ex (matches [(''_id'', JOid (hex_digits 24 (oid_counter w)))]) (docs w)
       then (Inl DuplicateKey, log_call (CollInsertOne (JObj kvs)) w)
       else (Inr (JOid (hex_digits 24 (oid_counter w))),
             (log_call (CollInsertOne (JObj kvs)) w)
               \<lparr>docs := docs w @ [(''_id'', JOid (hex_digits 24 (oid_counter w))) # kvs],
                oid_counter := Suc (oid_counter w)\<rparr>))"
proof -
  have stored: "map (map_prod id bson) kvs = kvs"
    using bson_is_json [OF assms(1)] by simp
  have given: "jprop (JObj kvs) ''_id'' = JUndefined"
    using assms(2) by simp
  show ?thesis
    unfolding collection_insertOne_def Let_def given
    by (simp add: stored filter_other_keys assms(2))
qed

section \<open>What each handler does to the documents\<close>

lemma docs_get_spots: "docs (snd (get_spots w)) = docs w"
  by (simp add: get_spots_def collection_find_def log_call_def split: sum.splits)

lemma docs_get_user_spots: "docs (snd (get_user_spots lib cookies email w)) = docs w"
  by (simp add: get_user_spots_def collection_find_def log_call_def Let_def split: sum.splits)

lemma docs_get_spot: "docs (snd (get_spot id_param w)) = docs w"
  by (simp add: get_spot_def collection_findOne_def log_call_def split: sum.splits option.splits)

lemma docs_post_spot:
  "docs (snd (post_spot body w)) = docs w \<or> (\<exists>d. docs (snd (post_spot body w)) = docs w @ [d])"
  by (simp add: post_spot_def collection_insertOne_def log_call_def Let_def split: json.splits)

lemma docs_delete_spot:
  "docs (snd (delete_spot id_param w)) = docs w
   \<or> (\<exists>oid. ObjectId_new id_param = Inr oid
         \<and> docs (snd (delete_spot id_param w)) =
             delete_first (matches [(''_id'', JOid oid)]) (docs w))"
  by (simp add: delete_spot_def collection_findOne_def collection_deleteOne_def
      cloudinary_destroy_def log_call_def Let_def split: sum.splits)

lemma docs_patch_spot:
  "docs (snd (patch_spot id_param updateInfo w)) = docs w
   \<or> (\<exists>oid. ObjectId_new id_param = Inr oid
         \<and> docs (snd (patch_spot id_param updateInfo w)) =
             update_first (matches [(''_id'', JOid oid)])
               (\<lambda>d. apply_set d (updateFields updateInfo)) (docs w))"
  by (simp add: patch_spot_def cloudinary_destroy_def collection_updateOne_def log_call_def
      Let_def split: sum.splits)

lemma ownership_patch_spot: "ownership (snd (patch_spot id_param updateInfo w)) = ownership w"
proof -
  have keep: "(map_of (apply_set d (updateFields updateInfo)) ''_id'',
               map_of (apply_set d (updateFields updateInfo)) ''userEmail'') =
              (map_of d ''_id'', map_of d ''userEmail'')" for d
    by (simp add: map_of_apply_set_other updateFields_other_key editable_fields_def)
  from docs_patch_spot [of id_param updateInfo w] show ?thesis
    unfolding ownership_def
    by (auto simp add: map_update_first [where g = "\<lambda>d. (map_of d ''_id'', map_of d ''userEmail'')", OF keep])
qed

section \<open>Owner-scoped listing\<close>

text \<open>
  Claim C1. A request to \<^verbatim>\<open>GET /tourist-spot/user/:email\<close> that carries a verified identity
  whose \<^verbatim>\<open>user\<close> differs from the \<^verbatim>\<open>:email\<close> path parameter is answered 403, and the world
  is returned as it was: no call to the collection has been logged. The route pattern
  binds \<^verbatim>\<open>:email\<close> to a path segment, which is never empty; the identity's \<^verbatim>\<open>user\<close> may be
  any value, also a missing one.
\<close>

theorem user_spots_mismatch_forbidden:
  assumes "truthy (jprop cookies ''token'')"
      and "jwt_verify lib (jprop cookies ''token'') = Inr identity"
      and "email \<noteq> []"
      and "jprop identity ''user'' \<noteq> JStr email"
  shows "get_user_spots lib cookies email w =
           (Respond 403 None
              (JObj [(''success'', JBool False), (''message'', JStr ''Access forbidden'')]), w)"
  using assms by (auto simp add: get_user_spots_def verifyToken_def obj_lit_def Let_def)

theorem user_spots_mismatch_forbidden_witness:
  "get_user_spots sample_jwt (JObj [(''token'', JStr ''signed.token'')]) ''b@x.com'' empty_world =
     (Respond 403 None
        (JObj [(''success'', JBool False), (''message'', JStr ''Access forbidden'')]), empty_world)
   \<and> trace empty_world = []"
  using user_spots_mismatch_forbidden
    [of "JObj [(''token'', JStr ''signed.token'')]" sample_jwt
        "JObj [(''user'', JStr ''a@x.com'')]" "''b@x.com''" empty_world]
  by (simp add: sample_jwt_def empty_world_def)

section \<open>Listing an empty collection\<close>

text \<open>
  Claim C2. When the collection holds no document and the query returns, \<^verbatim>\<open>GET /tourist-spot\<close>
  answers 404 with the body \<^verbatim>\<open>{ success: false, message: "No data found" }\<close>, not 200 with
  an empty array. The answer is the very one \<^verbatim>\<open>GET /tourist-spot/:id\<close> gives for a
  well-formed identifier that no document has, in any world: status and body do not tell
  the two apart.
\<close>

theorem get_spots_empty_not_found:
  assumes "docs w = []" and "\<not> db_down w"
  shows "fst (get_spots w) =
           Respond 404 None (JObj [(''success'', JBool False), (''message'', JStr ''No data found'')])
         \<and> (\<forall>id_param oid w'. ObjectId_new id_param = Inr oid \<and> \<not> db_down w'
                \<and> find (matches [(''_id'', JOid oid)]) (docs w') = None
              \<longrightarrow> fst (get_spot id_param w') = fst (get_spots w))"
  using assms
  by (simp add: get_spots_def get_spot_def collection_find_def collection_findOne_def obj_lit_def)

theorem get_spots_empty_not_found_witness:
  "docs empty_world = [] \<and> \<not> db_down empty_world
   \<and> fst (get_spots empty_world) =
       Respond 404 None (JObj [(''success'', JBool False), (''message'', JStr ''No data found'')])
   \<and> fst (get_spot ''507f1f77bcf86cd799439011'' empty_world) = fst (get_spots empty_world)"
  using get_spots_empty_not_found [of empty_world]
  by (simp add: empty_world_def ObjectId_new_def is_hex_def hex_lower_def)

section \<open>Asset cleanup on update\<close>

text \<open>
  Claim C3, as the code has it. For a \<^verbatim>\<open>PATCH /tourist-spot/:id\<close> with a well-formed
  identifier and a truthy \<^verbatim>\<open>ex_public_id\<close>, the calls the handler adds to the trace start
  with one \<^verbatim>\<open>destroy\<close> of exactly that value. When the asset store answers, the only other
  call is the \<^verbatim>\<open>updateOne\<close>, after it. When the asset store throws, the trace ends with the
  \<^verbatim>\<open>destroy\<close>: the exception goes to \<^verbatim>\<open>next\<close>, no write is attempted and the documents
  stay as they were.
\<close>

theorem patch_destroy_then_write:
  assumes "truthy (jprop updateInfo ''ex_public_id'')"
      and "ObjectId_new id_param = Inr oid"
  shows "trace (snd (patch_spot id_param updateInfo w)) =
           trace w @
             (if cloud_down w then [CloudDestroy (jprop updateInfo ''ex_public_id'')]
              else [CloudDestroy (jprop updateInfo ''ex_public_id''),
                    CollUpdateOne [(''_id'', JOid oid)] (updateFields updateInfo)])
         \<and> (cloud_down w \<longrightarrow>
               fst (patch_spot id_param updateInfo w) = Forwarded CloudError
               \<and> docs (snd (patch_spot id_param updateInfo w)) = docs w)"
proof -
  from assms(1) have "updateInfo \<noteq> JUndefined" and "updateInfo \<noteq> JNull" by auto
  with assms show ?thesis
    by (simp add: patch_spot_def cloudinary_destroy_def collection_updateOne_def log_call_def
        Let_def split: prod.splits sum.splits)
qed

theorem patch_destroy_then_write_witness:
  "trace (snd (patch_spot ''000000000000000000000000''
                 (JObj [(''spot_name'', JStr ''Atoll''), (''ex_public_id'', JStr ''img123'')])
                 reef_world)) =
     [CloudDestroy (JStr ''img123''),
      CollUpdateOne [(''_id'', JOid ''000000000000000000000000'')]
        (updateFields (JObj [(''spot_name'', JStr ''Atoll''), (''ex_public_id'', JStr ''img123'')]))]
   \<and> fst (patch_spot ''000000000000000000000000''
            (JObj [(''spot_name'', JStr ''Atoll''), (''ex_public_id'', JStr ''img123'')])
            (reef_world\<lparr>cloud_down := True\<rparr>)) = Forwarded CloudError
   \<and> trace (snd (patch_spot ''000000000000000000000000''
            (JObj [(''spot_name'', JStr ''Atoll''), (''ex_public_id'', JStr ''img123'')])
            (reef_world\<lparr>cloud_down := True\<rparr>))) = [CloudDestroy (JStr ''img123'')]"
  using patch_destroy_then_write
          [of "JObj [(''spot_name'', JStr ''Atoll''), (''ex_public_id'', JStr ''img123'')]"
              "''000000000000000000000000''" "''000000000000000000000000''" reef_world]
        patch_destroy_then_write
          [of "JObj [(''spot_name'', JStr ''Atoll''), (''ex_public_id'', JStr ''img123'')]"
              "''000000000000000000000000''" "''000000000000000000000000''"
              "reef_world\<lparr>cloud_down := True\<rparr>"]
  by (simp add: reef_world_def)

text \<open>
  The claim as stated fails twice. With the asset store down, the update of an existing
  document is aborted after the \<^verbatim>\<open>destroy\<close>. With a malformed identifier,
  \<^verbatim>\<open>new ObjectId(id)\<close> throws at line 306, before the \<^verbatim>\<open>destroy\<close>: no call is made at all.
\<close>

theorem patch_destroy_best_effort_counterexample:
  "patch_spot ''000000000000000000000000''
     (JObj [(''spot_name'', JStr ''Atoll''), (''ex_public_id'', JStr ''img123'')])
     (reef_world\<lparr>cloud_down := True\<rparr>) =
     (Forwarded CloudError, reef_world\<lparr>cloud_down := True, trace := [CloudDestroy (JStr ''img123'')]\<rparr>)
   \<and> patch_spot ''abc''
       (JObj [(''spot_name'', JStr ''Atoll''), (''ex_public_id'', JStr ''img123'')]) reef_world =
       (Forwarded BSONError, reef_world)"
  by (simp add: patch_spot_def cloudinary_destroy_def log_call_def reef_world_def Let_def)

section \<open>Create, then read\<close>

text \<open>
  Claim C4, as the code has it. For a parsed JSON object without an \<^verbatim>\<open>_id\<close> of its own that
  \<^verbatim>\<open>POST /tourist-spot\<close> answers with 201, the \<^verbatim>\<open>id\<close> of the answer is an identifier, and
  \<^verbatim>\<open>GET /tourist-spot/:id\<close> with it, on the world the creation left, answers 200 with a
  document in which every field of the payload reads as the payload had it. Nothing is
  said about the order of the document's fields.
\<close>

theorem create_then_get_round_trip:
  assumes "is_json (JObj kvs)" and "map_of kvs ''_id'' = None"
      and "post_spot (JObj kvs) w = (Respond 201 None body, w1)"
  shows "\<exists>h d. body = JObj [(''success'', JBool True),
                           (''message'', JStr ''Tourist spot added successfully''),
                           (''id'', JOid h)]
             \<and> fst (get_spot h w1) =
                 Respond 200 None (JObj [(''success'', JBool True), (''data'', JObj d)])
             \<and> (\<forall>k v. map_of kvs k = Some v \<longrightarrow> map_of d k = Some v)"
proof -
  define h where "h = hex_digits 24 (oid_counter w)"
  define d where "d = (''_id'', JOid h) # kvs"
  note ins = insert_fresh_payload [OF assms(1,2), of w, folded h_def, folded d_def]
  have up: "\<not> db_down w"
  proof
    assume "db_down w"
    with assms(3) show False by (simp add: post_spot_def ins)
  qed
  have fresh: "\<not> list_ex (matches [(''_id'', JOid h)]) (docs w)"
  proof
    assume "list_ex (matches [(''_id'', JOid h)]) (docs w)"
    with assms(3) up show False by (simp add: post_spot_def ins)
  qed
  from assms(3) up fresh
  have body: "body = JObj [(''success'', JBool True),
                           (''message'', JStr ''Tourist spot added successfully''),
                           (''id'', JOid h)]"
    and w1: "w1 = (log_call (CollInsertOne (JObj kvs)) w)
                    \<lparr>docs := docs w @ [d], oid_counter := Suc (oid_counter w)\<rparr>"
    by (simp_all add: post_spot_def ins obj_lit_def)
  have "matches [(''_id'', JOid h)] d"
    by (simp add: d_def matches_def eq_match_def)
  with fresh have "find (matches [(''_id'', JOid h)]) (docs w @ [d]) = Some d"
    by (rule find_append_last)
  moreover have "ObjectId_new h = Inr h"
    unfolding h_def by (rule ObjectId_new_generated)
  ultimately have got: "fst (get_spot h w1) =
               Respond 200 None
                 (JObj [(''success'', JBool True), (''data'', JObj d)])"
    by (simp add: get_spot_def collection_findOne_def w1 log_call_def up obj_lit_def)
  have verbatim: "\<forall>k v. map_of kvs k = Some v \<longrightarrow> map_of d k = Some v"
    using assms(2) by (auto simp add: d_def)
  from body got verbatim show ?thesis by blast
qed

theorem create_then_get_round_trip_witness:
  "fst (post_spot (JObj [(''spot_name'', JStr ''Reef''), (''userEmail'', JStr ''a@x.com'')])
          empty_world) =
     Respond 201 None
       (JObj [(''success'', JBool True), (''message'', JStr ''Tourist spot added successfully''),
              (''id'', JOid ''000000000000000000000000'')])
   \<and> (\<exists>d. fst (get_spot ''000000000000000000000000''
                 (snd (post_spot
                         (JObj [(''spot_name'', JStr ''Reef''), (''userEmail'', JStr ''a@x.com'')])
                         empty_world))) =
              Respond 200 None (JObj [(''success'', JBool True), (''data'', JObj d)])
            \<and> map_of d ''spot_name'' = Some (JStr ''Reef'')
            \<and> map_of d ''userEmail'' = Some (JStr ''a@x.com''))"
proof -
  let ?p = "[(''spot_name'', JStr ''Reef''), (''userEmail'', JStr ''a@x.com'')]"
  let ?b = "JObj [(''success'', JBool True), (''message'', JStr ''Tourist spot added successfully''),
              (''id'', JOid ''000000000000000000000000'')]"
  have created: "fst (post_spot (JObj ?p) empty_world) = Respond 201 None ?b"
    by (simp add: post_spot_def collection_insertOne_def empty_world_def log_call_def Let_def
        obj_lit_def hex_digits_zero)
  then have post: "post_spot (JObj ?p) empty_world =
                     (Respond 201 None ?b, snd (post_spot (JObj ?p) empty_world))"
    by (metis prod.collapse)
  have "is_json (JObj ?p)" and "map_of ?p ''_id'' = None" by simp_all
  from create_then_get_round_trip [OF this post]
  obtain h d where h: "?b = JObj [(''success'', JBool True),
                         (''message'', JStr ''Tourist spot added successfully''),
                         (''id'', JOid h)]"
    and get: "fst (get_spot h (snd (post_spot (JObj ?p) empty_world))) =
                 Respond 200 None (JObj [(''success'', JBool True), (''data'', JObj d)])"
    and verbatim: "\<forall>k v. map_of ?p k = Some v \<longrightarrow> map_of d k = Some v"
    by blast
  from h have h0: "h = ''000000000000000000000000''" by simp
  from verbatim have "map_of d ''spot_name'' = Some (JStr ''Reef'')"
    and "map_of d ''userEmail'' = Some (JStr ''a@x.com'')"
    by simp_all
  with get h0 have "\<exists>d. fst (get_spot ''000000000000000000000000''
                 (snd (post_spot (JObj ?p) empty_world))) =
              Respond 200 None (JObj [(''success'', JBool True), (''data'', JObj d)])
            \<and> map_of d ''spot_name'' = Some (JStr ''Reef'')
            \<and> map_of d ''userEmail'' = Some (JStr ''a@x.com'')"
    by blast
  with created show ?thesis by simp
qed

text \<open>
  The claim as stated fails for a payload that brings its own \<^verbatim>\<open>_id\<close>: the store keeps it,
  the handler answers 201 with \<^verbatim>\<open>id: "abc"\<close>, and reading that identifier back makes
  \<^verbatim>\<open>new ObjectId("abc")\<close> throw at line 226.
\<close>

theorem create_with_own_id_counterexample:
  "post_spot (JObj [(''_id'', JStr ''abc''), (''spot_name'', JStr ''Reef'')]) empty_world =
     (Respond 201 None
        (JObj [(''success'', JBool True), (''message'', JStr ''Tourist spot added successfully''),
               (''id'', JStr ''abc'')]),
      empty_world\<lparr>docs := [[(''_id'', JStr ''abc''), (''spot_name'', JStr ''Reef'')]],
                  trace := [CollInsertOne (JObj [(''_id'', JStr ''abc''), (''spot_name'', JStr ''Reef'')])]\<rparr>)
   \<and> fst (get_spot ''abc''
            (empty_world\<lparr>docs := [[(''_id'', JStr ''abc''), (''spot_name'', JStr ''Reef'')]],
                  trace := [CollInsertOne (JObj [(''_id'', JStr ''abc''), (''spot_name'', JStr ''Reef'')])]\<rparr>)) =
       Forwarded BSONError"
  by (simp add: post_spot_def get_spot_def collection_insertOne_def empty_world_def log_call_def
      Let_def obj_lit_def)

section \<open>What an update writes\<close>

text \<open>
  Claim C5, as the code has it. When the write of a \<^verbatim>\<open>PATCH /tourist-spot/:id\<close> is carried
  out (the body can be destructured, the identifier is well-formed, a requested asset
  cleanup does not throw and the store answers), the first document with that identifier
  gets the \<^verbatim>\<open>$set\<close> of \<open>updateFields\<close> and every other document stays as it is. Whatever
  the document held before, each of the eight editable fields then holds the payload's
  value as the serialiser stores it; for a field the payload lacks that is \<^verbatim>\<open>null\<close>.
\<close>

theorem patch_replaces_editable_fields:
  assumes "updateInfo \<noteq> JUndefined" and "updateInfo \<noteq> JNull"
      and "ObjectId_new id_param = Inr oid"
      and "truthy (jprop updateInfo ''ex_public_id'') \<longrightarrow> \<not> cloud_down w"
      and "\<not> db_down w"
  shows "docs (snd (patch_spot id_param updateInfo w)) =
           update_first (matches [(''_id'', JOid oid)])
             (\<lambda>d. apply_set d (updateFields updateInfo)) (docs w)
         \<and> (\<forall>d. \<forall>k \<in> set editable_fields.
               map_of (apply_set d (updateFields updateInfo)) k = Some (bson (jprop updateInfo k))
               \<and> (jprop updateInfo k = JUndefined \<longrightarrow>
                    map_of (apply_set d (updateFields updateInfo)) k = Some JNull))"
proof -
  have "docs (snd (patch_spot id_param updateInfo w)) =
           update_first (matches [(''_id'', JOid oid)])
             (\<lambda>d. apply_set d (updateFields updateInfo)) (docs w)"
    using assms
    by (simp add: patch_spot_def cloudinary_destroy_def collection_updateOne_def log_call_def
        Let_def)
  moreover have "\<forall>d. \<forall>k \<in> set editable_fields.
               map_of (apply_set d (updateFields updateInfo)) k = Some (bson (jprop updateInfo k))
               \<and> (jprop updateInfo k = JUndefined \<longrightarrow>
                    map_of (apply_set d (updateFields updateInfo)) k = Some JNull)"
    by (simp add: map_of_apply_set_editable)
  ultimately show ?thesis by simp
qed

theorem patch_replaces_editable_fields_witness:
  "docs (snd (patch_spot ''000000000000000000000000'' (JObj [(''spot_name'', JStr ''Atoll'')])
                reef_world)) =
     [[(''_id'', JOid ''000000000000000000000000''),
       (''spot_name'', JStr ''Atoll''), (''userEmail'', JStr ''a@x.com''),
       (''imgHostingInfo'',
        JObj [(''url'', JStr ''https://img.example/reef.jpg''), (''public_id'', JStr ''img123'')]),
       (''country_name'', JNull), (''location'', JNull), (''details'', JNull),
       (''average_cost'', JNull), (''seasonality'', JNull), (''travel_time'', JNull),
       (''total_visitors_per_year'', JNull)]]
   \<and> map_of (apply_set [(''country_name'', JStr ''Fiji'')]
               (updateFields (JObj [(''spot_name'', JStr ''Atoll'')]))) ''country_name'' = Some JNull"
proof -
  note inst = patch_replaces_editable_fields
      [of "JObj [(''spot_name'', JStr ''Atoll'')]" "''000000000000000000000000''"
          "''000000000000000000000000''" reef_world]
  have pre: "\<not> cloud_down reef_world" "\<not> db_down reef_world"
    by (simp_all add: reef_world_def)
  have k: "''country_name'' \<in> set editable_fields" by (simp add: editable_fields_def)
  from inst pre have
    d: "docs (snd (patch_spot ''000000000000000000000000'' (JObj [(''spot_name'', JStr ''Atoll'')])
                reef_world)) =
        update_first (matches [(''_id'', JOid ''000000000000000000000000'')])
          (\<lambda>d. apply_set d (updateFields (JObj [(''spot_name'', JStr ''Atoll'')]))) (docs reef_world)"
    and a: "\<forall>d. \<forall>k \<in> set editable_fields.
         map_of (apply_set d (updateFields (JObj [(''spot_name'', JStr ''Atoll'')]))) k =
           Some (bson (jprop (JObj [(''spot_name'', JStr ''Atoll'')]) k))
         \<and> (jprop (JObj [(''spot_name'', JStr ''Atoll'')]) k = JUndefined \<longrightarrow>
              map_of (apply_set d (updateFields (JObj [(''spot_name'', JStr ''Atoll'')]))) k =
                Some JNull)"
    by simp_all
  from a k have "map_of (apply_set [(''country_name'', JStr ''Fiji'')]
               (updateFields (JObj [(''spot_name'', JStr ''Atoll'')]))) ''country_name'' = Some JNull"
    by simp
  moreover from d have "docs (snd (patch_spot ''000000000000000000000000''
                (JObj [(''spot_name'', JStr ''Atoll'')]) reef_world)) =
     [[(''_id'', JOid ''000000000000000000000000''),
       (''spot_name'', JStr ''Atoll''), (''userEmail'', JStr ''a@x.com''),
       (''imgHostingInfo'',
        JObj [(''url'', JStr ''https://img.example/reef.jpg''), (''public_id'', JStr ''img123'')]),
       (''country_name'', JNull), (''location'', JNull), (''details'', JNull),
       (''average_cost'', JNull), (''seasonality'', JNull), (''travel_time'', JNull),
       (''total_visitors_per_year'', JNull)]]"
    by (simp add: reef_world_def matches_def eq_match_def updateFields_def apply_set_def)
  ultimately show ?thesis by simp
qed

text \<open>
  The claim as stated fails on the stored value: a field the payload lacks is stored as
  \<^verbatim>\<open>null\<close>, present in the document, neither \<^verbatim>\<open>undefined\<close> nor absent. It also fails when
  the asset cleanup throws: then nothing is written, and a field the payload lacks keeps
  its old value.
\<close>

theorem patch_absent_field_counterexample:
  "map_of (hd (docs (snd (patch_spot ''000000000000000000000000''
                            (JObj [(''spot_name'', JStr ''Atoll'')]) reef_world))))
     ''country_name'' = Some JNull
   \<and> map_of (hd (docs (snd (patch_spot ''000000000000000000000000''
                              (JObj [(''ex_public_id'', JStr ''img123'')])
                              (reef_world\<lparr>cloud_down := True\<rparr>)))))
       ''spot_name'' = Some (JStr ''Reef'')"
  by (simp add: patch_spot_def cloudinary_destroy_def collection_updateOne_def log_call_def
      reef_world_def matches_def eq_match_def updateFields_def apply_set_def Let_def)

section \<open>An update that modifies nothing\<close>

text \<open>
  Claim C6. When the \<^verbatim>\<open>updateOne\<close> of a \<^verbatim>\<open>PATCH /tourist-spot/:id\<close> reports a
  \<^verbatim>\<open>modifiedCount\<close> of zero, the answer is 500 with the fixed body
  \<^verbatim>\<open>{ success: false, message: "Failed to update this document data" }\<close>. The report is
  zero in two cases, no document with that identifier and a document that the writes
  leave as it was, and the answer is the same in both.
\<close>

theorem patch_zero_modified_write_failed:
  assumes "updateInfo \<noteq> JUndefined" and "updateInfo \<noteq> JNull"
      and "ObjectId_new id_param = Inr oid"
      and "truthy (jprop updateInfo ''ex_public_id'') \<longrightarrow> \<not> cloud_down w"
      and "\<not> db_down w"
      and "modifiedCount (update_report [(''_id'', JOid oid)] (updateFields updateInfo) (docs w)) = 0"
  shows "fst (patch_spot id_param updateInfo w) =
           Respond 500 None
             (JObj [(''success'', JBool False),
                    (''message'', JStr ''Failed to update this document data'')])
         \<and> (find (matches [(''_id'', JOid oid)]) (docs w) = None
             \<or> (\<exists>d. find (matches [(''_id'', JOid oid)]) (docs w) = Some d
                    \<and> apply_set d (updateFields updateInfo) = d))"
proof -
  have "fst (patch_spot id_param updateInfo w) =
           Respond 500 None
             (JObj [(''success'', JBool False),
                    (''message'', JStr ''Failed to update this document data'')])"
    using assms
    by (simp add: patch_spot_def cloudinary_destroy_def collection_updateOne_def log_call_def
        obj_lit_def Let_def)
  moreover have "find (matches [(''_id'', JOid oid)]) (docs w) = None
             \<or> (\<exists>d. find (matches [(''_id'', JOid oid)]) (docs w) = Some d
                    \<and> apply_set d (updateFields updateInfo) = d)"
    using assms(6) by (simp add: update_report_zero)
  ultimately show ?thesis by simp
qed

text \<open>
  Both cases on the same world: an identifier no document has, and the stored document
  updated with the \<^verbatim>\<open>spot_name\<close> it already has.
\<close>

theorem patch_zero_modified_write_failed_witness:
  "fst (patch_spot ''507f1f77bcf86cd799439011'' (JObj [(''spot_name'', JStr ''Reef'')])
          patched_reef_world) =
     Respond 500 None
       (JObj [(''success'', JBool False), (''message'', JStr ''Failed to update this document data'')])
   \<and> fst (patch_spot ''000000000000000000000000'' (JObj [(''spot_name'', JStr ''Reef'')])
          patched_reef_world) =
     Respond 500 None
       (JObj [(''success'', JBool False), (''message'', JStr ''Failed to update this document data'')])"
  using patch_zero_modified_write_failed
          [of "JObj [(''spot_name'', JStr ''Reef'')]" "''507f1f77bcf86cd799439011''"
              "''507f1f77bcf86cd799439011''" patched_reef_world]
        patch_zero_modified_write_failed
          [of "JObj [(''spot_name'', JStr ''Reef'')]" "''000000000000000000000000''"
              "''000000000000000000000000''" patched_reef_world]
  by (simp add: update_report_def patched_reef_world_def matches_def eq_match_def
      updateFields_def apply_set_def)

section \<open>Token issuance\<close>

text \<open>
  Claim C7, as the code has it. \<^verbatim>\<open>POST /jwt\<close> with a falsy body is answered 401 without a
  cookie. With a truthy body the answer depends on the signing call: a non-empty token
  gives 200 and the \<^verbatim>\<open>token\<close> cookie, an empty token gives 401 without a cookie.
\<close>

theorem post_jwt_outcomes:
  "(\<not> truthy body \<longrightarrow>
      post_jwt lib body =
        Respond 401 None
          (JObj [(''success'', JBool False), (''message'', JStr ''Verified email not found!'')]))
   \<and> (truthy body \<and> jwt_sign lib body = Inr token \<and> token \<noteq> [] \<longrightarrow>
        post_jwt lib body =
          Respond 200
            (Some (SetCookie ''token'' token
               \<lparr>maxAge = None, httpOnly = True, secure = True, sameSite = ''none''\<rparr>))
            (JObj [(''success'', JBool True)]))
   \<and> (truthy body \<and> jwt_sign lib body = Inr [] \<longrightarrow>
        post_jwt lib body =
          Respond 401 None
            (JObj [(''success'', JBool False), (''message'', JStr ''jwt token generate failed'')]))"
  by (simp add: post_jwt_def obj_lit_def)

theorem post_jwt_outcomes_witness:
  "post_jwt sample_jwt JUndefined =
     Respond 401 None
       (JObj [(''success'', JBool False), (''message'', JStr ''Verified email not found!'')])
   \<and> post_jwt sample_jwt (JObj [(''user'', JStr ''a@x.com'')]) =
       Respond 200
         (Some (SetCookie ''token'' ''signed.token''
            \<lparr>maxAge = None, httpOnly = True, secure = True, sameSite = ''none''\<rparr>))
         (JObj [(''success'', JBool True)])
   \<and> post_jwt (sample_jwt\<lparr>jwt_sign := \<lambda>payload. Inr []\<rparr>) (JObj [(''user'', JStr ''a@x.com'')]) =
       Respond 401 None
         (JObj [(''success'', JBool False), (''message'', JStr ''jwt token generate failed'')])"
  using post_jwt_outcomes [of JUndefined sample_jwt]
        post_jwt_outcomes [of "JObj [(''user'', JStr ''a@x.com'')]" sample_jwt "''signed.token''"]
        post_jwt_outcomes [of "JObj [(''user'', JStr ''a@x.com'')]"
                              "sample_jwt\<lparr>jwt_sign := \<lambda>payload. Inr []\<rparr>"]
  by (simp add: sample_jwt_def)

text \<open>
  The claim as stated promises 200 and a cookie for every present identity claim. A claim
  that already carries \<^verbatim>\<open>exp\<close> is present, and signing it throws: the \<^verbatim>\<open>catch\<close> of line 94
  logs the exception and sends nothing, so the request gets no response at all.
\<close>

theorem post_jwt_present_claim_counterexample:
  "truthy (JObj [(''user'', JStr ''a@x.com''), (''exp'', JNum 1)])
   \<and> post_jwt sample_jwt (JObj [(''user'', JStr ''a@x.com''), (''exp'', JNum 1)]) =
       NoResponse JwtError"
  by (simp add: post_jwt_def sample_jwt_def)

section \<open>The response envelope\<close>

text \<open>
  Claim C8. Every JSON response should carry a boolean \<^verbatim>\<open>success\<close>. Deleting a well-formed
  identifier that no document has is answered with the object literal of line 278, which
  names \<^verbatim>\<open>success\<close> twice: the second value, a string, is the one that is sent, and the
  body has no \<^verbatim>\<open>message\<close>.
\<close>

theorem delete_missing_success_not_boolean:
  "fst (delete_spot ''507f1f77bcf86cd799439011'' empty_world) =
     Respond 404 None (JObj [(''success'', JStr ''No data found to delete'')])
   \<and> \<not> is_bool (jprop (JObj [(''success'', JStr ''No data found to delete'')]) ''success'')"
  by (simp add: delete_spot_def collection_findOne_def collection_deleteOne_def log_call_def
      obj_lit_def empty_world_def Let_def)

section \<open>Ownership\<close>

text \<open>
  Claim C9. Whatever the request, the stored documents afterwards either have the same
  identifiers and the same \<^verbatim>\<open>userEmail\<close> values as before, position by position, or are the
  documents of before followed by one created by \<^verbatim>\<open>POST /tourist-spot\<close>, or are the
  documents of before without the one a \<^verbatim>\<open>DELETE /tourist-spot/:id\<close> removed. The \<^verbatim>\<open>$set\<close>
  of an update never names \<^verbatim>\<open>userEmail\<close>.
\<close>

theorem userEmail_never_rewritten:
  "(ownership (snd (handle lib r w)) = ownership w
    \<or> (\<exists>body d. r = PostSpot body \<and> docs (snd (handle lib r w)) = docs w @ [d])
    \<or> (\<exists>id_param oid. r = DeleteSpot id_param \<and> ObjectId_new id_param = Inr oid
          \<and> docs (snd (handle lib r w)) =
              delete_first (matches [(''_id'', JOid oid)]) (docs w)))
   \<and> ''userEmail'' \<notin> set (map fst (updateFields updateInfo))"
proof -
  have "ownership (snd (handle lib r w)) = ownership w
    \<or> (\<exists>body d. r = PostSpot body \<and> docs (snd (handle lib r w)) = docs w @ [d])
    \<or> (\<exists>id_param oid. r = DeleteSpot id_param \<and> ObjectId_new id_param = Inr oid
          \<and> docs (snd (handle lib r w)) =
              delete_first (matches [(''_id'', JOid oid)]) (docs w))"
  proof (cases r)
    case (PostSpot body)
    with docs_post_spot [of body w] show ?thesis by (auto simp add: ownership_def)
  next
    case (DeleteSpot id_param)
    with docs_delete_spot [of id_param w] show ?thesis by (auto simp add: ownership_def)
  next
    case (PatchSpot id_param body)
    then show ?thesis by (simp add: ownership_patch_spot)
  qed (simp_all add: ownership_def docs_get_spots docs_get_user_spots docs_get_spot)
  moreover have "''userEmail'' \<notin> set (map fst (updateFields updateInfo))"
    by (simp add: updateFields_keys editable_fields_def)
  ultimately show ?thesis by simp
qed

theorem userEmail_never_rewritten_witness:
  "ownership (snd (handle sample_jwt
       (PatchSpot ''000000000000000000000000''
          (JObj [(''spot_name'', JStr ''Atoll''), (''userEmail'', JStr ''b@x.com'')]))
       reef_world)) =
     [(Some (JOid ''000000000000000000000000''), Some (JStr ''a@x.com''))]
   \<and> ''userEmail'' \<notin> set (map fst (updateFields
         (JObj [(''spot_name'', JStr ''Atoll''), (''userEmail'', JStr ''b@x.com'')])))"
  using userEmail_never_rewritten
          [of sample_jwt
              "PatchSpot ''000000000000000000000000''
                 (JObj [(''spot_name'', JStr ''Atoll''), (''userEmail'', JStr ''b@x.com'')])"
              reef_world
              "JObj [(''spot_name'', JStr ''Atoll''), (''userEmail'', JStr ''b@x.com'')]"]
  by (simp add: ownership_def reef_world_def)

section \<open>The image field on update\<close>

text \<open>
  Claim C10. When the payload of a \<^verbatim>\<open>PATCH /tourist-spot/:id\<close> has no truthy
  \<^verbatim>\<open>imgHostingInfo\<close>, every stored document has the \<^verbatim>\<open>imgHostingInfo\<close> it had before
  (present with the same value, or absent), and the \<^verbatim>\<open>$set\<close> names exactly the eight
  editable fields. A truthy \<^verbatim>\<open>imgHostingInfo\<close> is added to the \<^verbatim>\<open>$set\<close> as a ninth field.
\<close>

theorem patch_keeps_imgHostingInfo:
  "(\<not> truthy (jprop updateInfo ''imgHostingInfo'') \<longrightarrow>
      map (\<lambda>d. map_of d ''imgHostingInfo'') (docs (snd (patch_spot id_param updateInfo w))) =
      map (\<lambda>d. map_of d ''imgHostingInfo'') (docs w)
      \<and> map fst (updateFields updateInfo) = editable_fields)
   \<and> (truthy (jprop updateInfo ''imgHostingInfo'') \<longrightarrow>
        map fst (updateFields updateInfo) = editable_fields @ [''imgHostingInfo''])"
proof -
  have "map (\<lambda>d. map_of d ''imgHostingInfo'') (docs (snd (patch_spot id_param updateInfo w))) =
        map (\<lambda>d. map_of d ''imgHostingInfo'') (docs w)"
    if no: "\<not> truthy (jprop updateInfo ''imgHostingInfo'')"
  proof -
    have keep: "map_of (apply_set d (updateFields updateInfo)) ''imgHostingInfo'' =
                map_of d ''imgHostingInfo''" for d
    proof (rule map_of_apply_set_other)
      have "''imgHostingInfo'' \<notin> set (map fst (updateFields updateInfo))"
        using no by (simp add: updateFields_keys editable_fields_def)
      then show "''imgHostingInfo'' \<notin> fst ` set (updateFields updateInfo)" by simp
    qed
    from docs_patch_spot [of id_param updateInfo w] show ?thesis
      by (auto simp add: keep map_update_first)
  qed
  then show ?thesis by (simp add: updateFields_keys)
qed

theorem patch_keeps_imgHostingInfo_witness:
  "map (\<lambda>d. map_of d ''imgHostingInfo'')
     (docs (snd (patch_spot ''000000000000000000000000'' (JObj [(''spot_name'', JStr ''Atoll'')])
                   reef_world))) =
     [Some (JObj [(''url'', JStr ''https://img.example/reef.jpg''),
                  (''public_id'', JStr ''img123'')])]
   \<and> map fst (updateFields (JObj [(''spot_name'', JStr ''Atoll'')])) = editable_fields
   \<and> map fst (updateFields (JObj [(''imgHostingInfo'', JObj [(''public_id'', JStr ''img456'')])])) =
       editable_fields @ [''imgHostingInfo'']"
  using patch_keeps_imgHostingInfo
          [of "JObj [(''spot_name'', JStr ''Atoll'')]" "''000000000000000000000000''" reef_world]
        patch_keeps_imgHostingInfo
          [of "JObj [(''imgHostingInfo'', JObj [(''public_id'', JStr ''img456'')])]"]
  by (simp add: reef_world_def)

end
